theory Spec2Isabelle
  imports Main "HOL-Library.Word" "HOL-Library.Multiset"
begin

unbundle bit_operations_syntax

section \<open>Machine types and the byte buffer\<close>

text \<open>
  The embedded program is \<^verbatim>\<open>pcsx2/Elfheader.cpp\<close>: the class \<^verbatim>\<open>ElfObject\<close>, which owns
  the bytes of an executable (\<^verbatim>\<open>std::vector<u8> data\<close>) and reads ELF and PS-X EXE header
  fields out of them.

  Fixed-width integers are words. \<^verbatim>\<open>size_t\<close> values (\<^verbatim>\<open>data.size()\<close>, \<^verbatim>\<open>sizeof\<close>) are
  natural numbers: the program is built for 64-bit targets only, and every \<^verbatim>\<open>size_t\<close>
  expression of the source is a \<^verbatim>\<open>u32\<close> plus a small constant, or a vector length, so none
  of them can wrap. The one place where a size is narrowed, the cast to \<^verbatim>\<open>u32\<close> in
  \<^verbatim>\<open>GetCRC\<close>, is written out.
\<close>

type_synonym u8 = "8 word"
type_synonym u16 = "16 word"
type_synonym u32 = "32 word"
type_synonym s64 = "64 word"

text \<open>
  How a call can end without its value. The first four are the error kinds the load
  operations report through \<^verbatim>\<open>Error*\<close>; the source sets a message, the kind is named in
  the comment beside each branch. \<open>BadAlloc\<close> is the exception \<^verbatim>\<open>std::vector::resize\<close>
  throws for a length above \<^verbatim>\<open>max_size()\<close>. \<open>OutOfBounds off\<close> is not an error the C++
  reports: it marks the read of a word, a record or a string at byte offset \<open>off\<close> that
  does not lie inside \<open>data\<close> (for a string that has no end inside it, \<open>off\<close> is the
  first offset outside). The C++ performs such a read unchecked, which is undefined
  behaviour; the model stops at the first one.
\<close>

datatype failure =
    NotFound
  | TooLarge
  | Truncated
  | IoError
  | BadAlloc
  | OutOfBounds nat

text \<open>Sequencing of calls that may fail: the first failure ends the computation.\<close>

definition bind_res :: "failure + 'a \<Rightarrow> ('a \<Rightarrow> failure + 'b) \<Rightarrow> failure + 'b" where
  "bind_res r f = (case r of Inl e \<Rightarrow> Inl e | Inr v \<Rightarrow> f v)"

text \<open>Little-endian decoding, as an x86-64 load of a \<^verbatim>\<open>u16\<close> or \<^verbatim>\<open>u32\<close> does it.\<close>

definition le_u16 :: "u8 \<Rightarrow> u8 \<Rightarrow> u16" where
  "le_u16 b0 b1 = ucast b0 OR push_bit 8 (ucast b1)"

definition le_u32 :: "u8 \<Rightarrow> u8 \<Rightarrow> u8 \<Rightarrow> u8 \<Rightarrow> u32" where
  "le_u32 b0 b1 b2 b3 =
     ucast b0 OR push_bit 8 (ucast b1) OR push_bit 16 (ucast b2) OR push_bit 24 (ucast b3)"

text \<open>
  A \<^verbatim>\<open>u32\<close> read through a pointer into \<open>data\<close>: the value when its four bytes are
  inside the buffer, \<open>OutOfBounds\<close> otherwise.
\<close>

definition read_u32 :: "u8 list \<Rightarrow> nat \<Rightarrow> failure + u32" where
  "read_u32 d off =
     (if off + 4 \<le> length d
      then Inr (le_u32 (d ! off) (d ! (off + 1)) (d ! (off + 2)) (d ! (off + 3)))
      else Inl (OutOfBounds off))"

section \<open>Header layouts\<close>

text \<open>
  Modelled from the spec: \<^verbatim>\<open>Elfheader.h\<close>, which declares \<^verbatim>\<open>ELF_HEADER\<close>, \<^verbatim>\<open>ELF_PHR\<close>,
  \<^verbatim>\<open>ELF_SHR\<close> and the members of \<^verbatim>\<open>ElfObject\<close>, is not among the sources. The spec gives
  the three record sizes (52, 32 and 40 bytes) and the fields in order; the byte offsets
  below are those of the standard 32-bit ELF layout, which has exactly these sizes.
\<close>

definition sizeof_ELF_HEADER :: nat where
  "sizeof_ELF_HEADER = 52"

definition sizeof_ELF_PHR :: nat where
  "sizeof_ELF_PHR = 32"

definition sizeof_ELF_SHR :: nat where
  "sizeof_ELF_SHR = 40"

record ELF_HEADER =
  e_type :: u16
  e_machine :: u16
  e_version :: u32
  e_entry :: u32
  e_phoff :: u32
  e_shoff :: u32
  e_flags :: u32
  e_ehsize :: u16
  e_phentsize :: u16
  e_phnum :: u16
  e_shentsize :: u16
  e_shnum :: u16
  e_shstrndx :: u16

record ELF_PHR =
  p_type :: u32
  p_offset :: u32
  p_vaddr :: u32
  p_paddr :: u32
  p_filesz :: u32
  p_memsz :: u32
  p_flags :: u32
  p_align :: u32

record ELF_SHR =
  sh_name :: u32
  sh_type :: u32
  sh_flags :: u32
  sh_addr :: u32
  sh_offset :: u32
  sh_size :: u32
  sh_link :: u32
  sh_info :: u32
  sh_addralign :: u32
  sh_entsize :: u32

text \<open>
  \<^verbatim>\<open>struct PSXEXEHeader\<close> of the source (packed, \<^verbatim>\<open>static_assert(sizeof(PSXEXEHeader) == 0x800)\<close>).
  The padding members \<^verbatim>\<open>pad1\<close>, \<^verbatim>\<open>reserved\<close> and \<^verbatim>\<open>marker\<close> are never read and have
  no field here.
\<close>

definition sizeof_PSXEXEHeader :: nat where
  "sizeof_PSXEXEHeader = 0x800"

record PSXEXEHeader =
  id :: "u8 list"
  initial_pc :: u32
  initial_gp :: u32
  load_address :: u32
  file_size :: u32
  unk0 :: u32
  unk1 :: u32
  memfill_start :: u32
  memfill_size :: u32
  initial_sp_base :: u32
  initial_sp_offset :: u32

text \<open>
  The value of a struct overlaid on the buffer at byte offset \<open>off\<close>
  (\<^verbatim>\<open>reinterpret_cast\<close>). These decoders index the buffer directly and mean something only
  when the struct lies inside it; every use below is behind a length test, the source's
  own or the one of the \<open>read_\<close> functions that follow.
\<close>

definition u16_at :: "u8 list \<Rightarrow> nat \<Rightarrow> u16" where
  "u16_at d off = le_u16 (d ! off) (d ! (off + 1))"

definition u32_at :: "u8 list \<Rightarrow> nat \<Rightarrow> u32" where
  "u32_at d off = le_u32 (d ! off) (d ! (off + 1)) (d ! (off + 2)) (d ! (off + 3))"

definition ELF_HEADER_at :: "u8 list \<Rightarrow> ELF_HEADER" where
  "ELF_HEADER_at d =
     \<lparr> e_type = u16_at d 0x10, e_machine = u16_at d 0x12, e_version = u32_at d 0x14,
       e_entry = u32_at d 0x18, e_phoff = u32_at d 0x1C, e_shoff = u32_at d 0x20,
       e_flags = u32_at d 0x24, e_ehsize = u16_at d 0x28, e_phentsize = u16_at d 0x2A,
       e_phnum = u16_at d 0x2C, e_shentsize = u16_at d 0x2E, e_shnum = u16_at d 0x30,
       e_shstrndx = u16_at d 0x32 \<rparr>"

definition ELF_PHR_at :: "u8 list \<Rightarrow> nat \<Rightarrow> ELF_PHR" where
  "ELF_PHR_at d off =
     \<lparr> p_type = u32_at d off, p_offset = u32_at d (off + 4), p_vaddr = u32_at d (off + 8),
       p_paddr = u32_at d (off + 12), p_filesz = u32_at d (off + 16),
       p_memsz = u32_at d (off + 20), p_flags = u32_at d (off + 24),
       p_align = u32_at d (off + 28) \<rparr>"

definition ELF_SHR_at :: "u8 list \<Rightarrow> nat \<Rightarrow> ELF_SHR" where
  "ELF_SHR_at d off =
     \<lparr> sh_name = u32_at d off, sh_type = u32_at d (off + 4), sh_flags = u32_at d (off + 8),
       sh_addr = u32_at d (off + 12), sh_offset = u32_at d (off + 16),
       sh_size = u32_at d (off + 20), sh_link = u32_at d (off + 24),
       sh_info = u32_at d (off + 28), sh_addralign = u32_at d (off + 32),
       sh_entsize = u32_at d (off + 36) \<rparr>"

definition PSXEXEHeader_at :: "u8 list \<Rightarrow> PSXEXEHeader" where
  "PSXEXEHeader_at d =
     \<lparr> id = take 8 d, initial_pc = u32_at d 0x10, initial_gp = u32_at d 0x14,
       load_address = u32_at d 0x18, file_size = u32_at d 0x1C, unk0 = u32_at d 0x20,
       unk1 = u32_at d 0x24, memfill_start = u32_at d 0x28, memfill_size = u32_at d 0x2C,
       initial_sp_base = u32_at d 0x30, initial_sp_offset = u32_at d 0x34 \<rparr>"

text \<open>
  An access to a struct through a pointer into the buffer. The C++ does not test
  anything here; the model does, so that an access leaving the buffer is a result
  (\<open>OutOfBounds\<close>) and not an unspecified value.
\<close>

definition read_ELF_PHR :: "u8 list \<Rightarrow> nat \<Rightarrow> failure + ELF_PHR" where
  "read_ELF_PHR d off =
     (if off + sizeof_ELF_PHR \<le> length d then Inr (ELF_PHR_at d off)
      else Inl (OutOfBounds off))"

definition read_ELF_SHR :: "u8 list \<Rightarrow> nat \<Rightarrow> failure + ELF_SHR" where
  "read_ELF_SHR d off =
     (if off + sizeof_ELF_SHR \<le> length d then Inr (ELF_SHR_at d off)
      else Inl (OutOfBounds off))"

text \<open>
  A NUL-terminated string read by \<^verbatim>\<open>printf("%s")\<close> from the address \<open>data.data() + off\<close>:
  the bytes before the first zero byte. With no zero byte between \<open>off\<close> and the end of
  the buffer the read runs past the end.
\<close>

definition read_cstring :: "u8 list \<Rightarrow> nat \<Rightarrow> failure + u8 list" where
  "read_cstring d off =
     (if 0 \<in> set (drop off d) then Inr (takeWhile (\<lambda>b. b \<noteq> 0) (drop off d))
      else Inl (OutOfBounds (max off (length d))))"

section \<open>The object\<close>

text \<open>
  \<open>proghead\<close> and \<open>secthead\<close> are the pointers \<^verbatim>\<open>ELF_PHR* proghead\<close> and
  \<^verbatim>\<open>ELF_SHR* secthead\<close>: \<open>None\<close> is \<^verbatim>\<open>nullptr\<close>, \<open>Some off\<close> is \<^verbatim>\<open>&data[off]\<close>.
\<close>

record ElfObject =
  data :: "u8 list"
  proghead :: "nat option"
  secthead :: "nat option"
  filename :: string
  isPSXElf :: bool

text \<open>
  Modelled from the spec: the default member initialisers are in \<^verbatim>\<open>Elfheader.h\<close>; the
  spec says an instance is "constructed empty".
\<close>

definition ElfObject_new :: ElfObject where
  "ElfObject_new =
     \<lparr> data = [], proghead = None, secthead = None, filename = [], isPSXElf = False \<rparr>"

text \<open>
  \<^verbatim>\<open>GetHeader()\<close> overlays \<^verbatim>\<open>ELF_HEADER\<close> on the start of the buffer. Modelled from the
  spec: it is an inline function of \<^verbatim>\<open>Elfheader.h\<close>; the spec has "interpret the first
  52 bytes of buffer as the ELF header". The header is read where the source first uses
  one of its fields.
\<close>

definition GetHeader :: "ElfObject \<Rightarrow> failure + ELF_HEADER" where
  "GetHeader e =
     (if sizeof_ELF_HEADER \<le> length (data e) then Inr (ELF_HEADER_at (data e))
      else Inl (OutOfBounds 0))"

text \<open>
  Lines written to the console (\<^verbatim>\<open>Console.Error\<close>, \<^verbatim>\<open>Console.Warning\<close>), with the values
  they print.
\<close>

datatype console =
    ProgramHeaderOffsetTooLarge u32 nat
  | SectionHeaderOffsetTooLarge u32 nat
  | SectionHeaderSizeNotStandard
  | ProgramHeaderSizeNotStandard
  | IncorrectPSXFileSize u32 u32

section \<open>The size check\<close>

text \<open>
  \<^verbatim>\<open>bool ElfObject::CheckElfSize(s64 size, Error* error)\<close>. The three comparisons are
  signed 64-bit comparisons. Messages of the source, in branch order:
  "Illegal ELF file size over 2GB!" (\<open>TooLarge\<close>), "ELF file does not exist!"
  (\<open>NotFound\<close>), "Unexpected end of ELF file." (\<open>Truncated\<close>).
\<close>

definition CheckElfSize :: "s64 \<Rightarrow> failure + unit" where
  "CheckElfSize sz =
     (if sint sz > 0xfffffff then Inl TooLarge
      else if sz = - 1 then Inl NotFound
      else if sint sz \<le> int sizeof_ELF_HEADER then Inl Truncated
      else Inr ())"

section \<open>Header initialisation\<close>

text \<open>
  \<^verbatim>\<open>void ElfObject::InitElfHeaders()\<close>. The sums \<^verbatim>\<open>header.e_phoff + sizeof(ELF_PHR)\<close> and
  \<^verbatim>\<open>header.e_shoff + sizeof(ELF_SHR)\<close> are \<^verbatim>\<open>size_t\<close> sums. The result is the object and
  the console lines in the order written. The \<^verbatim>\<open>DevCon\<close> line and the \<^verbatim>\<open>ELF_LOG\<close> lines
  that follow print fields of the header already read and change nothing; they have
  no counterpart here.
\<close>

definition InitElfHeaders :: "ElfObject \<Rightarrow> failure + ElfObject \<times> console list" where
  "InitElfHeaders e =
     (if isPSXElf e then Inr (e, [])
      else bind_res (GetHeader e) (\<lambda>header.
        let (e1, c1) =
              (if e_phnum header > 0 then
                 if unat (e_phoff header) + sizeof_ELF_PHR \<le> length (data e)
                 then (e\<lparr>proghead := Some (unat (e_phoff header))\<rparr>, [])
                 else (e, [ProgramHeaderOffsetTooLarge (e_phoff header) (length (data e))])
               else (e, []));
            (e2, c2) =
              (if e_shnum header > 0 then
                 if unat (e_shoff header) + sizeof_ELF_SHR \<le> length (data e1)
                 then (e1\<lparr>secthead := Some (unat (e_shoff header))\<rparr>, [])
                 else (e1, [SectionHeaderOffsetTooLarge (e_shoff header) (length (data e1))])
               else (e1, []));
            c3 = (if e_shnum header > 0 \<and> unat (e_shentsize header) \<noteq> sizeof_ELF_SHR
                  then [SectionHeaderSizeNotStandard] else []);
            c4 = (if e_phnum header > 0 \<and> unat (e_phentsize header) \<noteq> sizeof_ELF_PHR
                  then [ProgramHeaderSizeNotStandard] else [])
        in Inr (e2, c1 @ c2 @ c3 @ c4)))"

section \<open>Loading\<close>

text \<open>
  Modelled from the spec: \<^verbatim>\<open>CDVD/IsoReader.h\<close> is not among the sources. The spec's
  disc-image byte source has \<open>locate(path)\<close>, giving an entry with an offset and a
  length or nothing, and \<open>readInto(entry, buffer)\<close>, which succeeds or fails. Both are
  parameters here; \<open>length_le\<close> is the entry's declared length, a \<^verbatim>\<open>u32\<close>.
\<close>

record ISODirectoryEntry =
  location_le :: u32
  length_le :: u32

record IsoReader =
  LocateFile :: "string \<Rightarrow> failure + ISODirectoryEntry"
  ReadFile :: "ISODirectoryEntry \<Rightarrow> failure + u8 list"

text \<open>
  \<^verbatim>\<open>bool ElfObject::OpenIsoFile(std::string srcfile, IsoReader& isor, bool isPSXElf_, Error* error)\<close>.
  \<^verbatim>\<open>de->length_le\<close> is converted from \<^verbatim>\<open>u32\<close> to \<^verbatim>\<open>s64\<close>. A \<open>false\<close> return is \<open>Inl\<close>
  with the kind of the error; a \<open>true\<close> return is the object after the call, with the
  console lines of \<open>InitElfHeaders\<close>.
\<close>

definition OpenIsoFile ::
  "string \<Rightarrow> IsoReader \<Rightarrow> bool \<Rightarrow> ElfObject \<Rightarrow> failure + ElfObject \<times> console list" where
  "OpenIsoFile srcfile isor isPSXElf' e =
     bind_res (LocateFile isor srcfile) (\<lambda>de.
     bind_res (CheckElfSize (ucast (length_le de))) (\<lambda>_.
     bind_res (ReadFile isor de) (\<lambda>bytes.
       InitElfHeaders (e\<lparr>data := bytes, filename := srcfile, isPSXElf := isPSXElf'\<rparr>))))"

text \<open>
  Modelled from the spec: \<^verbatim>\<open>common/FileSystem.h\<close> is not among the sources. The spec's
  filesystem byte source has \<open>open(path, mode)\<close>, \<open>stat(handle)\<close> and
  \<open>readExact(handle, length)\<close>, each of which can fail. Here a path opens or does not
  (\<^verbatim>\<open>FileSystem::OpenManagedCFile\<close>); an open file has a size that
  \<^verbatim>\<open>FileSystem::StatFile\<close> reports or fails to report, and the bytes \<^verbatim>\<open>std::fread\<close>
  delivers.
\<close>

record cfile =
  stat_size :: "s64 option"
  contents :: "u8 list"

type_synonym filesystem = "string \<Rightarrow> cfile option"

text \<open>
  \<^verbatim>\<open>bool ElfObject::OpenFile(std::string srcfile, bool isPSXElf_, Error* error)\<close>.
  Both "Failed to read ELF from" returns are \<open>IoError\<close>. \<^verbatim>\<open>static_cast<size_t>(sd.Size)\<close> of
  a negative size is at least \<open>2^63\<close>, for which \<^verbatim>\<open>resize\<close> throws. \<^verbatim>\<open>fread\<close> is asked for
  one item of \<^verbatim>\<open>data.size()\<close> bytes: it returns 1 when the item is not empty and the
  file delivers that many bytes, and 0 otherwise.
\<close>

definition OpenFile ::
  "filesystem \<Rightarrow> string \<Rightarrow> bool \<Rightarrow> ElfObject \<Rightarrow> failure + ElfObject \<times> console list" where
  "OpenFile fs srcfile isPSXElf' e =
     (case fs srcfile of
        None \<Rightarrow> Inl IoError
      | Some fp \<Rightarrow>
          (case stat_size fp of
             None \<Rightarrow> Inl IoError
           | Some sz \<Rightarrow>
               bind_res (if \<not> isPSXElf' then CheckElfSize sz else Inr ()) (\<lambda>_.
                 if sint sz < 0 then Inl BadAlloc
                 else if unat sz = 0 \<or> length (contents fp) < unat sz then Inl IoError
                 else InitElfHeaders
                        (e\<lparr>data := take (unat sz) (contents fp), filename := srcfile,
                           isPSXElf := isPSXElf'\<rparr>))))"

section \<open>Queries\<close>

text \<open>
  \<^verbatim>\<open>bool ElfObject::HasValidPSXHeader() const\<close>, with the warning it may write.
  \<^verbatim>\<open>header->file_size + sizeof(PSXEXEHeader)\<close> is a \<^verbatim>\<open>size_t\<close> sum; the second value printed
  is \<^verbatim>\<open>data.size() - sizeof(PSXEXEHeader)\<close> narrowed to \<^verbatim>\<open>unsigned\<close>.
\<close>

definition expected_id :: "u8 list" where
  "expected_id = map (of_nat \<circ> of_char) ''PS-X EXE''"

definition HasValidPSXHeader_console :: "ElfObject \<Rightarrow> bool \<times> console list" where
  "HasValidPSXHeader_console e =
     (if length (data e) < sizeof_PSXEXEHeader then (False, [])
      else
        let header = PSXEXEHeader_at (data e) in
        if id header \<noteq> expected_id then (False, [])
        else if unat (file_size header) + sizeof_PSXEXEHeader > length (data e)
        then (True, [IncorrectPSXFileSize (file_size header)
                       (of_nat (length (data e) - sizeof_PSXEXEHeader))])
        else (True, []))"

definition HasValidPSXHeader :: "ElfObject \<Rightarrow> bool" where
  "HasValidPSXHeader e = fst (HasValidPSXHeader_console e)"

definition HasProgramHeaders :: "ElfObject \<Rightarrow> bool" where
  "HasProgramHeaders e = (proghead e \<noteq> None)"

definition HasSectionHeaders :: "ElfObject \<Rightarrow> bool" where
  "HasSectionHeaders e = (secthead e \<noteq> None)"

definition HasHeaders :: "ElfObject \<Rightarrow> bool" where
  "HasHeaders e = (HasProgramHeaders e \<and> HasSectionHeaders e)"

text \<open>\<^verbatim>\<open>u32 ElfObject::GetEntryPoint() const\<close>\<close>

definition GetEntryPoint :: "ElfObject \<Rightarrow> failure + u32" where
  "GetEntryPoint e =
     (if isPSXElf e then
        if HasValidPSXHeader e then Inr (initial_pc (PSXEXEHeader_at (data e)))
        else Inr 0xFFFFFFFF
      else bind_res (GetHeader e) (\<lambda>header. Inr (e_entry header)))"

text \<open>
  \<^verbatim>\<open>std::pair<u32,u32> ElfObject::GetTextRange() const\<close>. The loop runs \<open>i\<close> over
  \<open>0, ..., e_phnum - 1\<close>; \<^verbatim>\<open>proghead[i]\<close> is the record at \<open>proghead + 32 * i\<close>, and
  \<open>proghead\<close> is not null where it is used. \<^verbatim>\<open>start + size\<close> is a \<^verbatim>\<open>u32\<close> sum and wraps.
\<close>

fun GetTextRange_loop :: "u8 list \<Rightarrow> nat \<Rightarrow> u32 \<Rightarrow> nat list \<Rightarrow> failure + u32 \<times> u32" where
  "GetTextRange_loop d ph entry [] = Inr (0, 0)"
| "GetTextRange_loop d ph entry (i # is) =
     bind_res (read_ELF_PHR d (ph + sizeof_ELF_PHR * i)) (\<lambda>p.
       let start = p_vaddr p; sz = p_memsz p in
       if start \<le> entry \<and> start + sz > entry then Inr (start, sz)
       else GetTextRange_loop d ph entry is)"

definition GetTextRange :: "ElfObject \<Rightarrow> failure + u32 \<times> u32" where
  "GetTextRange e =
     (if \<not> isPSXElf e \<and> HasProgramHeaders e then
        bind_res (GetHeader e) (\<lambda>header.
          GetTextRange_loop (data e) (the (proghead e)) (e_entry header)
            [0 ..< unat (e_phnum header)])
      else Inr (0, 0))"

text \<open>
  \<^verbatim>\<open>u32 ElfObject::GetCRC() const\<close>. The loop counter starts at
  \<^verbatim>\<open>static_cast<u32>(data.size()) / 4\<close> and counts down to 0; \<open>src\<close> is the byte offset of
  \<^verbatim>\<open>srcdata\<close>, which advances by one \<^verbatim>\<open>u32\<close> each round.
\<close>

fun GetCRC_loop :: "u8 list \<Rightarrow> nat \<Rightarrow> nat \<Rightarrow> u32 \<Rightarrow> failure + u32" where
  "GetCRC_loop d 0 src CRC = Inr CRC"
| "GetCRC_loop d (Suc i) src CRC =
     bind_res (read_u32 d src) (\<lambda>w. GetCRC_loop d i (src + 4) (CRC XOR w))"

definition GetCRC :: "ElfObject \<Rightarrow> failure + u32" where
  "GetCRC e = GetCRC_loop (data e) (length (data e) mod 2 ^ 32 div 4) 0 0"

section \<open>The header dump\<close>

text \<open>
  \<^verbatim>\<open>ELF_LOG\<close> is a macro of \<^verbatim>\<open>DebugTools/Debug.h\<close>, which is not among the sources. It is
  taken as a parameter: with \<open>act\<close> the line is formatted and written, its arguments
  read; without it nothing of the line happens. A written line is its format string
  and the values of its arguments; \<open>LogNull\<close> is a null \<^verbatim>\<open>const char*\<close>.
\<close>

datatype log_arg = LogNum nat | LogStr "u8 list" | LogNull

type_synonym trace = "(string \<times> log_arg list) list"

definition ELF_LOG :: "bool \<Rightarrow> string \<Rightarrow> log_arg list \<Rightarrow> trace" where
  "ELF_LOG act fmt args = (if act then [(fmt, args)] else [])"

definition newline :: string where
  "newline = [CHR 0x0A]"

text \<open>The lines of one round of the loop of \<^verbatim>\<open>LoadProgramHeaders\<close>, for the record read.\<close>

definition program_header_lines :: "bool \<Rightarrow> ELF_PHR \<Rightarrow> trace" where
  "program_header_lines act p =
     ELF_LOG act ''Elf32 Program Header'' [] @
     ELF_LOG act ''type:      '' [] @
     (if p_type p = 0x1 then ELF_LOG act ''load'' []
      else ELF_LOG act ''unknown %x'' [LogNum (unat (p_type p))]) @
     ELF_LOG act newline [] @
     ELF_LOG act ''offset:    %08x'' [LogNum (unat (p_offset p))] @
     ELF_LOG act ''vaddr:     %08x'' [LogNum (unat (p_vaddr p))] @
     ELF_LOG act ''paddr:     %08x'' [LogNum (unat (p_paddr p))] @
     ELF_LOG act ''file size: %08x'' [LogNum (unat (p_filesz p))] @
     ELF_LOG act ''mem size:  %08x'' [LogNum (unat (p_memsz p))] @
     ELF_LOG act ''flags:     %08x'' [LogNum (unat (p_flags p))] @
     ELF_LOG act ''palign:    %08x'' [LogNum (unat (p_align p))] @
     ELF_LOG act newline []"

fun LoadProgramHeaders_loop ::
  "bool \<Rightarrow> u8 list \<Rightarrow> nat \<Rightarrow> nat list \<Rightarrow> trace \<Rightarrow> failure + trace" where
  "LoadProgramHeaders_loop act d ph [] out = Inr out"
| "LoadProgramHeaders_loop act d ph (i # is) out =
     bind_res (read_ELF_PHR d (ph + sizeof_ELF_PHR * i)) (\<lambda>p.
       LoadProgramHeaders_loop act d ph is (out @ program_header_lines act p))"

text \<open>\<^verbatim>\<open>void ElfObject::LoadProgramHeaders()\<close>\<close>

definition LoadProgramHeaders :: "bool \<Rightarrow> ElfObject \<Rightarrow> failure + trace" where
  "LoadProgramHeaders act e =
     (case proghead e of
        None \<Rightarrow> Inr []
      | Some ph \<Rightarrow>
          bind_res (GetHeader e) (\<lambda>header.
            LoadProgramHeaders_loop act (data e) ph [0 ..< unat (e_phnum header)] []))"

text \<open>
  The lines of one round of the loop of \<^verbatim>\<open>LoadSectionHeaders\<close>, for the record read
  and the name string read for its first line.
\<close>

definition sectype :: "u32 \<Rightarrow> string option" where
  "sectype t =
     (if t = 0x0 then Some ''null''
      else if t = 0x1 then Some ''progbits''
      else if t = 0x2 then Some ''symtab''
      else if t = 0x3 then Some ''strtab''
      else if t = 0x4 then Some ''rela''
      else if t = 0x8 then Some ''no bits''
      else if t = 0x9 then Some ''rel''
      else None)"

definition section_header_lines :: "bool \<Rightarrow> nat \<Rightarrow> u8 list \<Rightarrow> ELF_SHR \<Rightarrow> trace" where
  "section_header_lines act i name s =
     ELF_LOG act ''ELF32 Section Header [%x] %s'' [LogNum i, LogStr name] @
     ELF_LOG act newline [] @
     (case sectype (sh_type s) of
        None \<Rightarrow>
          ELF_LOG act ''type:      unknown %08x'' [LogNum (unat (sh_type s))] @
          ELF_LOG act ''type:      %s'' [LogNull]
      | Some t \<Rightarrow>
          ELF_LOG act ''type:      %s'' [LogStr (map (of_nat \<circ> of_char) t)]) @
     ELF_LOG act ''flags:     %08x'' [LogNum (unat (sh_flags s))] @
     ELF_LOG act ''addr:      %08x'' [LogNum (unat (sh_addr s))] @
     ELF_LOG act ''offset:    %08x'' [LogNum (unat (sh_offset s))] @
     ELF_LOG act ''size:      %08x'' [LogNum (unat (sh_size s))] @
     ELF_LOG act ''link:      %08x'' [LogNum (unat (sh_link s))] @
     ELF_LOG act ''info:      %08x'' [LogNum (unat (sh_info s))] @
     ELF_LOG act ''addralign: %08x'' [LogNum (unat (sh_addralign s))] @
     ELF_LOG act ''entsize:   %08x'' [LogNum (unat (sh_entsize s))]"

text \<open>
  \<^verbatim>\<open>&sections_names[secthead[i].sh_name]\<close> is the address
  \<open>data.data() + section_names_offset + sh_name\<close>, a pointer sum that does not wrap.
\<close>

fun LoadSectionHeaders_loop ::
  "bool \<Rightarrow> u8 list \<Rightarrow> nat \<Rightarrow> nat \<Rightarrow> nat list \<Rightarrow> trace \<Rightarrow> failure + trace" where
  "LoadSectionHeaders_loop act d sh section_names_offset [] out = Inr out"
| "LoadSectionHeaders_loop act d sh section_names_offset (i # is) out =
     bind_res (read_ELF_SHR d (sh + sizeof_ELF_SHR * i)) (\<lambda>s.
     bind_res (if act then read_cstring d (section_names_offset + unat (sh_name s))
               else Inr []) (\<lambda>name.
       LoadSectionHeaders_loop act d sh section_names_offset is
         (out @ section_header_lines act i name s)))"

text \<open>
  \<^verbatim>\<open>void ElfObject::LoadSectionHeaders()\<close>. \<^verbatim>\<open>!secthead\<close> is tested before
  \<^verbatim>\<open>header.e_shoff\<close> is read. The record the string-table index selects is read with no
  test on the index.
\<close>

definition LoadSectionHeaders :: "bool \<Rightarrow> ElfObject \<Rightarrow> failure + trace" where
  "LoadSectionHeaders act e =
     (case secthead e of
        None \<Rightarrow> Inr []
      | Some sh \<Rightarrow>
          bind_res (GetHeader e) (\<lambda>header.
            if unat (e_shoff header) > length (data e) then Inr []
            else
              bind_res (read_ELF_SHR (data e)
                         (sh + sizeof_ELF_SHR *
                            (if e_shstrndx header = 0xffff then 0
                             else unat (e_shstrndx header)))) (\<lambda>names.
                LoadSectionHeaders_loop act (data e) sh (unat (sh_offset names))
                  [0 ..< unat (e_shnum header)] [])))"

text \<open>\<^verbatim>\<open>void ElfObject::LoadHeaders()\<close>\<close>

definition LoadHeaders :: "bool \<Rightarrow> ElfObject \<Rightarrow> failure + trace" where
  "LoadHeaders act e =
     (if isPSXElf e then Inr []
      else
        bind_res (LoadProgramHeaders act e) (\<lambda>t1.
        bind_res (LoadSectionHeaders act e) (\<lambda>t2. Inr (t1 @ t2))))"

section \<open>Sample images\<close>

text \<open>
  Byte images used to run the functions on concrete inputs. The multi-byte arguments
  are given as little-endian byte lists.
\<close>

definition elf_header_bytes ::
  "u8 list \<Rightarrow> u8 list \<Rightarrow> u8 list \<Rightarrow> u8 list \<Rightarrow> u8 list \<Rightarrow> u8 list \<Rightarrow> u8 list" where
  "elf_header_bytes entry phoff shoff phnum shnum shstrndx =
     [0x7F, 0x45, 0x4C, 0x46] @ replicate 12 0 @ [2, 0] @ [8, 0] @ [1, 0, 0, 0] @
     entry @ phoff @ shoff @ replicate 4 0 @ [52, 0] @ [32, 0] @ phnum @ [40, 0] @
     shnum @ shstrndx"

definition program_header_bytes :: "u8 list \<Rightarrow> u8 list \<Rightarrow> u8 list" where
  "program_header_bytes vaddr memsz =
     [1, 0, 0, 0] @ replicate 4 0 @ vaddr @ replicate 8 0 @ memsz @ replicate 8 0"

definition section_header_bytes :: "u8 list \<Rightarrow> u8 list \<Rightarrow> u8 list" where
  "section_header_bytes name offset =
     name @ [3, 0, 0, 0] @ replicate 8 0 @ offset @ replicate 20 0"

definition psx_image :: "u8 list \<Rightarrow> u8 list \<Rightarrow> u8 list" where
  "psx_image pc fsz =
     [0x50, 0x53, 0x2D, 0x58, 0x20, 0x45, 0x58, 0x45] @ replicate 8 0 @ pc @
     replicate 8 0 @ fsz @ replicate (0x800 - 0x20) 0"

definition object_of :: "u8 list \<Rightarrow> bool \<Rightarrow> ElfObject" where
  "object_of d psx = ElfObject_new\<lparr>data := d, isPSXElf := psx\<rparr>"

definition one_file :: "string \<Rightarrow> u8 list \<Rightarrow> filesystem" where
  "one_file name d =
     (\<lambda>path. if path = name
        then Some \<lparr> stat_size = Some (of_nat (length d)), contents = d \<rparr> else None)"

definition one_entry :: "string \<Rightarrow> u8 list \<Rightarrow> IsoReader" where
  "one_entry name d =
     \<lparr> LocateFile = (\<lambda>path. if path = name
          then Inr \<lparr> location_le = 0, length_le = of_nat (length d) \<rparr> else Inl NotFound),
       ReadFile = (\<lambda>de. Inr (take (unat (length_le de)) d)) \<rparr>"

definition text_image :: "u8 list" where
  "text_image =
     elf_header_bytes [0x08, 0, 0x10, 0] [52, 0, 0, 0] [0, 0, 0, 0] [3, 0] [0, 0] [0, 0] @
     program_header_bytes [0, 0, 0x20, 0] [0x10, 0, 0, 0] @
     program_header_bytes [0, 0, 0x10, 0] [0x10, 0, 0, 0] @
     program_header_bytes [0, 0, 0x10, 0] [0x00, 1, 0, 0]"

definition wrap_image :: "u8 list" where
  "wrap_image =
     elf_header_bytes [0xF8, 0xFF, 0xFF, 0xFF] [52, 0, 0, 0] [0, 0, 0, 0] [1, 0] [0, 0] [0, 0] @
     program_header_bytes [0xF0, 0xFF, 0xFF, 0xFF] [0x20, 0, 0, 0]"

definition both_image :: "u8 list" where
  "both_image =
     elf_header_bytes [0, 0, 0x10, 0] [52, 0, 0, 0] [84, 0, 0, 0] [1, 0] [1, 0] [0, 0] @
     program_header_bytes [0, 0, 0x10, 0] [0x10, 0, 0, 0] @
     section_header_bytes [0, 0, 0, 0] [0, 0, 0, 0]"

definition dump_image :: "u8 list" where
  "dump_image =
     elf_header_bytes [0, 0, 0x10, 0] [0, 0, 0, 0] [52, 0, 0, 0] [0, 0] [1, 0] [5, 0] @
     section_header_bytes [0, 0, 0, 0] [0, 0, 0, 0]"

definition big_image :: "u8 list" where
  "big_image = replicate (4 * 2 ^ 30) 0 @ [1, 0, 0, 0]"

definition short_image :: "u8 list" where
  "short_image =
     elf_header_bytes [0, 0, 0x10, 0] [52, 0, 0, 0] [0, 0, 0, 0] [2, 0] [0, 0] [0, 0] @
     program_header_bytes [0, 0, 0x20, 0] [0x10, 0, 0, 0]"

text \<open>The objects that loading four of the images leaves.\<close>

definition both_object :: ElfObject where
  "both_object =
     \<lparr> data = both_image, proghead = Some 52, secthead = Some 84, filename = ''both.elf'',
       isPSXElf = False \<rparr>"

definition console_object :: ElfObject where
  "console_object =
     \<lparr> data = psx_image [0x00, 0x00, 0x01, 0x80] [0, 0, 0, 0], proghead = None,
       secthead = None, filename = ''SLUS_000.01'', isPSXElf = True \<rparr>"

definition wrap_object :: ElfObject where
  "wrap_object =
     \<lparr> data = wrap_image, proghead = Some 52, secthead = None, filename = ''wrap.elf'',
       isPSXElf = False \<rparr>"

definition dump_object :: ElfObject where
  "dump_object =
     \<lparr> data = dump_image, proghead = None, secthead = Some 52, filename = ''dump.elf'',
       isPSXElf = False \<rparr>"

definition short_object :: ElfObject where
  "short_object =
     \<lparr> data = short_image, proghead = Some 52, secthead = None, filename = ''short.elf'',
       isPSXElf = False \<rparr>"

section \<open>Notions the checksum claims are stated with\<close>

text \<open>
  The buffer as a sequence of 32-bit little-endian words: word \<open>k\<close> is made of the bytes
  \<open>4k, ..., 4k + 3\<close>, and there are \<open>floor(length / 4)\<close> of them, trailing bytes left out.
\<close>

definition words_le :: "u8 list \<Rightarrow> u32 list" where
  "words_le d = map (\<lambda>k. u32_at d (4 * k)) [0 ..< length d div 4]"

text \<open>The exclusive-or of a list of words.\<close>

definition xor_all :: "u32 list \<Rightarrow> u32" where
  "xor_all ws = fold (XOR) ws 0"

text \<open>The buffer with the aligned words \<open>i\<close> and \<open>j\<close> exchanged.\<close>

definition swap_words :: "nat \<Rightarrow> nat \<Rightarrow> u8 list \<Rightarrow> u8 list" where
  "swap_words i j d =
     d[4 * i := d ! (4 * j), 4 * i + 1 := d ! (4 * j + 1),
       4 * i + 2 := d ! (4 * j + 2), 4 * i + 3 := d ! (4 * j + 3),
       4 * j := d ! (4 * i), 4 * j + 1 := d ! (4 * i + 1),
       4 * j + 2 := d ! (4 * i + 2), 4 * j + 3 := d ! (4 * i + 3)]"

section \<open>Evaluating the sample images\<close>

lemma replicate_numeral: "replicate (numeral k) x = x # replicate (pred_numeral k) x"
  by (simp add: numeral_eq_Suc)

lemmas image_defs =
  elf_header_bytes_def program_header_bytes_def section_header_bytes_def replicate_numeral

lemmas decode_defs =
  ELF_HEADER_at_def ELF_PHR_at_def ELF_SHR_at_def u16_at_def u32_at_def le_u16_def le_u32_def

lemma expected_id_bytes: "expected_id = [0x50, 0x53, 0x2D, 0x58, 0x20, 0x45, 0x58, 0x45]"
  by (simp add: expected_id_def)

lemma length_psx_image:
  "length pc = 4 \<Longrightarrow> length fsz = 4 \<Longrightarrow> length (psx_image pc fsz) = 2048"
  by (simp add: psx_image_def)

lemma take8_psx_image:
  "take 8 (psx_image pc fsz) = [0x50, 0x53, 0x2D, 0x58, 0x20, 0x45, 0x58, 0x45]"
  by (simp add: psx_image_def)

lemma PSXEXEHeader_at_psx_image:
  "initial_pc (PSXEXEHeader_at (psx_image [a, b, c, d] fsz)) = le_u32 a b c d"
  "file_size (PSXEXEHeader_at (psx_image [a, b, c, d] [a', b', c', d'])) = le_u32 a' b' c' d'"
  by (simp_all add: psx_image_def PSXEXEHeader_at_def u32_at_def replicate_numeral)

lemma text_image_eval:
  "length text_image = 148"
  "e_entry (ELF_HEADER_at text_image) = 0x100008"
  "e_phnum (ELF_HEADER_at text_image) = 3"
  "ELF_PHR_at text_image 52 =
     \<lparr> p_type = 1, p_offset = 0, p_vaddr = 0x200000, p_paddr = 0, p_filesz = 0,
       p_memsz = 0x10, p_flags = 0, p_align = 0 \<rparr>"
  "ELF_PHR_at text_image 84 =
     \<lparr> p_type = 1, p_offset = 0, p_vaddr = 0x100000, p_paddr = 0, p_filesz = 0,
       p_memsz = 0x10, p_flags = 0, p_align = 0 \<rparr>"
  "ELF_PHR_at text_image 116 =
     \<lparr> p_type = 1, p_offset = 0, p_vaddr = 0x100000, p_paddr = 0, p_filesz = 0,
       p_memsz = 0x100, p_flags = 0, p_align = 0 \<rparr>"
  by (simp_all add: text_image_def image_defs decode_defs)

lemma wrap_image_eval:
  "length wrap_image = 84"
  "ELF_HEADER_at wrap_image =
     \<lparr> e_type = 2, e_machine = 8, e_version = 1, e_entry = 0xFFFFFFF8, e_phoff = 52,
       e_shoff = 0, e_flags = 0, e_ehsize = 52, e_phentsize = 32, e_phnum = 1,
       e_shentsize = 40, e_shnum = 0, e_shstrndx = 0 \<rparr>"
  "ELF_PHR_at wrap_image 52 =
     \<lparr> p_type = 1, p_offset = 0, p_vaddr = 0xFFFFFFF0, p_paddr = 0, p_filesz = 0,
       p_memsz = 0x20, p_flags = 0, p_align = 0 \<rparr>"
  by (simp_all add: wrap_image_def image_defs decode_defs)

lemma short_image_eval:
  "length short_image = 84"
  "ELF_HEADER_at short_image =
     \<lparr> e_type = 2, e_machine = 8, e_version = 1, e_entry = 0x100000, e_phoff = 52,
       e_shoff = 0, e_flags = 0, e_ehsize = 52, e_phentsize = 32, e_phnum = 2,
       e_shentsize = 40, e_shnum = 0, e_shstrndx = 0 \<rparr>"
  "ELF_PHR_at short_image 52 =
     \<lparr> p_type = 1, p_offset = 0, p_vaddr = 0x200000, p_paddr = 0, p_filesz = 0,
       p_memsz = 0x10, p_flags = 0, p_align = 0 \<rparr>"
  by (simp_all add: short_image_def image_defs decode_defs)

lemma both_image_eval:
  "length both_image = 124"
  "ELF_HEADER_at both_image =
     \<lparr> e_type = 2, e_machine = 8, e_version = 1, e_entry = 0x100000, e_phoff = 52,
       e_shoff = 84, e_flags = 0, e_ehsize = 52, e_phentsize = 32, e_phnum = 1,
       e_shentsize = 40, e_shnum = 1, e_shstrndx = 0 \<rparr>"
  by (simp_all add: both_image_def image_defs decode_defs)

lemma dump_image_eval:
  "length dump_image = 92"
  "ELF_HEADER_at dump_image =
     \<lparr> e_type = 2, e_machine = 8, e_version = 1, e_entry = 0x100000, e_phoff = 0,
       e_shoff = 52, e_flags = 0, e_ehsize = 52, e_phentsize = 32, e_phnum = 0,
       e_shentsize = 40, e_shnum = 1, e_shstrndx = 5 \<rparr>"
  by (simp_all add: dump_image_def image_defs decode_defs)

lemma OpenFile_one_file:
  assumes "52 < length d" "length d < 0x10000000"
  shows "OpenFile (one_file name d) name False e =
         InitElfHeaders (e\<lparr>data := d, filename := name, isPSXElf := False\<rparr>)"
proof -
  have u: "unat (word_of_nat (length d) :: s64) = length d"
    using assms by (simp add: unat_of_nat)
  have s: "sint (word_of_nat (length d) :: s64) = int (length d)"
    using assms by (simp add: signed_of_nat signed_take_bit_int_eq_self)
  have "(word_of_nat (length d) :: s64) \<noteq> - 1"
    using s by force
  then show ?thesis
    using assms u s
    by (auto simp: OpenFile_def one_file_def CheckElfSize_def sizeof_ELF_HEADER_def bind_res_def)
qed

section \<open>Properties of the size check\<close>

lemma sint_minus_one_s64: "sint (- 1 :: s64) = - 1"
  by simp

text \<open>
  C2. The size-check rule, its cases read in the order the claim lists them, each one
  applying to the lengths no earlier case has taken: a length above \<open>0x0FFFFFFF\<close> fails
  with \<open>TooLarge\<close>; the length \<open>-1\<close> fails with \<open>NotFound\<close>; any other length of at most 52
  fails with \<open>Truncated\<close>; every remaining length is accepted.
\<close>

theorem CheckElfSize_rule:
  "(0x0FFFFFFF < sint L \<longrightarrow> CheckElfSize L = Inl TooLarge) \<and>
   (L = - 1 \<longrightarrow> CheckElfSize L = Inl NotFound) \<and>
   (sint L \<le> 52 \<and> L \<noteq> - 1 \<longrightarrow> CheckElfSize L = Inl Truncated) \<and>
   (52 < sint L \<and> sint L \<le> 0x0FFFFFFF \<longrightarrow> CheckElfSize L = Inr ())"
  by (auto simp: CheckElfSize_def sizeof_ELF_HEADER_def)

theorem CheckElfSize_rule_witness:
  "CheckElfSize 0x10000000 = Inl TooLarge \<and>
   CheckElfSize (- 1) = Inl NotFound \<and>
   CheckElfSize 52 = Inl Truncated \<and>
   CheckElfSize 53 = Inr ()"
  using CheckElfSize_rule [of "0x10000000"] CheckElfSize_rule [of "- 1"]
    CheckElfSize_rule [of 52] CheckElfSize_rule [of 53]
  by simp

text \<open>
  C3, as amended. Every length of at most 52 other than the sentinel \<open>-1\<close> is rejected
  with \<open>Truncated\<close>. The sentinel itself is at most 52 and is rejected with \<open>NotFound\<close>,
  because the source tests for it first.
\<close>

theorem CheckElfSize_truncated:
  "sint L \<le> 52 \<Longrightarrow> L \<noteq> - 1 \<Longrightarrow> CheckElfSize L = Inl Truncated"
  by (simp add: CheckElfSize_def sizeof_ELF_HEADER_def)

theorem CheckElfSize_truncated_witness:
  "sint (0 :: s64) \<le> 52 \<and> (0 :: s64) \<noteq> - 1 \<and> CheckElfSize 0 = Inl Truncated"
  using CheckElfSize_truncated [of 0] by simp

theorem CheckElfSize_minus_one_counterexample:
  "sint (- 1 :: s64) \<le> 52 \<and> CheckElfSize (- 1) \<noteq> Inl Truncated"
  by (simp add: CheckElfSize_def)

section \<open>Properties of the load operations\<close>

text \<open>
  C1. The claim is that \<open>OpenIsoFile\<close> applies the size check to ELF loads only. The
  source calls \<open>CheckElfSize\<close> on the located entry's length whatever the format flag
  is, while \<open>OpenFile\<close> skips it for a console executable. Here both are run on the
  same 40 bytes with the console-executable flag set: the disc-image load is refused
  with \<open>Truncated\<close>, the file load succeeds.
\<close>

theorem OpenIsoFile_checks_console_executable:
  "OpenIsoFile ''SLUS_000.01'' (one_entry ''SLUS_000.01'' (replicate 40 0)) True ElfObject_new =
     Inl Truncated \<and>
   OpenFile (one_file ''SLUS_000.01'' (replicate 40 0)) ''SLUS_000.01'' True ElfObject_new =
     Inr (ElfObject_new\<lparr>data := replicate 40 0, filename := ''SLUS_000.01'',
            isPSXElf := True\<rparr>, [])"
  by (simp add: OpenIsoFile_def OpenFile_def one_entry_def one_file_def CheckElfSize_def
      sizeof_ELF_HEADER_def bind_res_def InitElfHeaders_def)

text \<open>The check does not depend on the format flag: whatever it rejects, the load rejects.\<close>

lemma OpenIsoFile_size_check_any_format:
  assumes "LocateFile isor srcfile = Inr de" and "CheckElfSize (ucast (length_le de)) = Inl err"
  shows "OpenIsoFile srcfile isor psx e = Inl err"
  using assms by (simp add: OpenIsoFile_def bind_res_def)

lemma InitElfHeaders_views:
  assumes "InitElfHeaders e0 = Inr (e, c)" and "proghead e0 = None" and "secthead e0 = None"
  shows "data e = data e0 \<and> isPSXElf e = isPSXElf e0 \<and>
    proghead e =
      (if \<not> isPSXElf e0 \<and> e_phnum (ELF_HEADER_at (data e0)) \<noteq> 0 \<and>
          unat (e_phoff (ELF_HEADER_at (data e0))) + 32 \<le> length (data e0)
       then Some (unat (e_phoff (ELF_HEADER_at (data e0)))) else None) \<and>
    secthead e =
      (if \<not> isPSXElf e0 \<and> e_shnum (ELF_HEADER_at (data e0)) \<noteq> 0 \<and>
          unat (e_shoff (ELF_HEADER_at (data e0))) + 40 \<le> length (data e0)
       then Some (unat (e_shoff (ELF_HEADER_at (data e0)))) else None)"
  using assms
  by (auto simp: InitElfHeaders_def GetHeader_def bind_res_def sizeof_ELF_PHR_def
      sizeof_ELF_SHR_def Let_def word_greater_zero_iff split: if_splits)

lemma OpenFile_Inr:
  assumes "OpenFile fs srcfile psx e0 = Inr (e, c)"
  shows "\<exists>bytes. InitElfHeaders (e0\<lparr>data := bytes, filename := srcfile, isPSXElf := psx\<rparr>) =
           Inr (e, c)"
  using assms
  by (auto simp: OpenFile_def bind_res_def split: option.splits sum.splits if_splits)

lemma OpenIsoFile_Inr:
  assumes "OpenIsoFile srcfile isor psx e0 = Inr (e, c)"
  shows "\<exists>bytes. InitElfHeaders (e0\<lparr>data := bytes, filename := srcfile, isPSXElf := psx\<rparr>) =
           Inr (e, c)"
  using assms
  by (auto simp: OpenIsoFile_def bind_res_def split: sum.splits)

text \<open>
  C9. Take an object whose two views are absent, as a newly constructed one has them,
  and a load on it that succeeds, from a file or from a disc image, leaving the object
  \<open>e\<close>. Then the program-header view is present exactly when the load is an ELF load,
  the header's program-header count is not zero and the table offset plus 32 is at most
  the buffer length; a present view is at that offset, so its first record ends inside
  the buffer. The same holds for the section-header view with 40. After a
  console-executable load both views are absent. The three queries report the presence
  of the views.
\<close>

theorem load_views:
  assumes load: "OpenFile fs srcfile psx e0 = Inr (e, c) \<or>
                 OpenIsoFile srcfile isor psx e0 = Inr (e, c)"
    and fresh: "proghead e0 = None" "secthead e0 = None"
  shows "(HasProgramHeaders e \<longleftrightarrow>
            \<not> psx \<and> e_phnum (ELF_HEADER_at (data e)) \<noteq> 0 \<and>
            unat (e_phoff (ELF_HEADER_at (data e))) + 32 \<le> length (data e)) \<and>
         (HasSectionHeaders e \<longleftrightarrow>
            \<not> psx \<and> e_shnum (ELF_HEADER_at (data e)) \<noteq> 0 \<and>
            unat (e_shoff (ELF_HEADER_at (data e))) + 40 \<le> length (data e)) \<and>
         (\<forall>ph. proghead e = Some ph \<longrightarrow>
            ph = unat (e_phoff (ELF_HEADER_at (data e))) \<and> ph + 32 \<le> length (data e)) \<and>
         (\<forall>sh. secthead e = Some sh \<longrightarrow>
            sh = unat (e_shoff (ELF_HEADER_at (data e))) \<and> sh + 40 \<le> length (data e)) \<and>
         (psx \<longrightarrow> proghead e = None \<and> secthead e = None) \<and>
         (HasProgramHeaders e \<longleftrightarrow> proghead e \<noteq> None) \<and>
         (HasSectionHeaders e \<longleftrightarrow> secthead e \<noteq> None) \<and>
         (HasHeaders e \<longleftrightarrow> proghead e \<noteq> None \<and> secthead e \<noteq> None)"
proof -
  from load obtain bytes where
    init: "InitElfHeaders (e0\<lparr>data := bytes, filename := srcfile, isPSXElf := psx\<rparr>) = Inr (e, c)"
    using OpenFile_Inr OpenIsoFile_Inr by blast
  let ?e1 = "e0\<lparr>data := bytes, filename := srcfile, isPSXElf := psx\<rparr>"
  have "proghead ?e1 = None" "secthead ?e1 = None"
    using fresh by simp_all
  from InitElfHeaders_views [OF init this]
  show ?thesis
    by (simp add: HasProgramHeaders_def HasSectionHeaders_def HasHeaders_def)
qed

lemma OpenFile_both_image:
  "OpenFile (one_file ''both.elf'' both_image) ''both.elf'' False ElfObject_new =
     Inr (both_object, [])"
  by (simp add: OpenFile_one_file both_image_eval InitElfHeaders_def GetHeader_def
      sizeof_ELF_HEADER_def sizeof_ELF_PHR_def sizeof_ELF_SHR_def bind_res_def
      ElfObject_new_def both_object_def)

lemma OpenIsoFile_console_image:
  "OpenIsoFile ''SLUS_000.01''
     (one_entry ''SLUS_000.01'' (psx_image [0x00, 0x00, 0x01, 0x80] [0, 0, 0, 0])) True
     ElfObject_new = Inr (console_object, [])"
  by (simp add: OpenIsoFile_def one_entry_def length_psx_image CheckElfSize_def
      sizeof_ELF_HEADER_def bind_res_def InitElfHeaders_def ElfObject_new_def
      console_object_def)

theorem load_views_witness:
  "OpenFile (one_file ''both.elf'' both_image) ''both.elf'' False ElfObject_new =
     Inr (both_object, []) \<and>
   HasProgramHeaders both_object \<and> HasSectionHeaders both_object \<and> HasHeaders both_object \<and>
   proghead both_object = Some 52 \<and> 52 + 32 \<le> length (data both_object) \<and>
   secthead both_object = Some 84 \<and> 84 + 40 \<le> length (data both_object) \<and>
   OpenIsoFile ''SLUS_000.01''
     (one_entry ''SLUS_000.01'' (psx_image [0x00, 0x00, 0x01, 0x80] [0, 0, 0, 0])) True
     ElfObject_new = Inr (console_object, []) \<and>
   \<not> HasProgramHeaders console_object \<and> \<not> HasSectionHeaders console_object \<and>
   \<not> HasHeaders console_object"
proof -
  have new: "proghead ElfObject_new = None" "secthead ElfObject_new = None"
    by (simp_all add: ElfObject_new_def)
  have elf: "OpenFile (one_file ''both.elf'' both_image) ''both.elf'' False ElfObject_new =
               Inr (both_object, []) \<or>
             OpenIsoFile ''both.elf'' (one_entry ''both.elf'' both_image) False ElfObject_new =
               Inr (both_object, [])"
    by (simp add: OpenFile_both_image)
  have psx: "OpenFile (one_file ''SLUS_000.01'' []) ''SLUS_000.01'' True ElfObject_new =
               Inr (console_object, []) \<or>
             OpenIsoFile ''SLUS_000.01''
               (one_entry ''SLUS_000.01'' (psx_image [0x00, 0x00, 0x01, 0x80] [0, 0, 0, 0])) True
               ElfObject_new = Inr (console_object, [])"
    by (simp add: OpenIsoFile_console_image)
  show ?thesis
    using load_views [OF elf new] load_views [OF psx new]
    by (simp add: OpenFile_both_image OpenIsoFile_console_image both_object_def
        both_image_eval)
qed

section \<open>Properties of the queries\<close>

text \<open>
  C6. \<open>HasValidPSXHeader\<close> is false for a buffer shorter than 2048 bytes, false when
  the first eight bytes are not the ASCII codes of "PS-X EXE", and true for every other
  buffer. When the declared file size plus 2048 exceeds the buffer length the result
  is still true, and the only effect is one warning line.
\<close>

theorem HasValidPSXHeader_cases:
  "(length (data e) < 2048 \<longrightarrow> \<not> HasValidPSXHeader e) \<and>
   (take 8 (data e) \<noteq> [0x50, 0x53, 0x2D, 0x58, 0x20, 0x45, 0x58, 0x45] \<longrightarrow>
      \<not> HasValidPSXHeader e) \<and>
   (2048 \<le> length (data e) \<and>
    take 8 (data e) = [0x50, 0x53, 0x2D, 0x58, 0x20, 0x45, 0x58, 0x45] \<longrightarrow>
      HasValidPSXHeader e) \<and>
   (2048 \<le> length (data e) \<and>
    take 8 (data e) = [0x50, 0x53, 0x2D, 0x58, 0x20, 0x45, 0x58, 0x45] \<and>
    length (data e) < unat (file_size (PSXEXEHeader_at (data e))) + 2048 \<longrightarrow>
      HasValidPSXHeader_console e =
        (True, [IncorrectPSXFileSize (file_size (PSXEXEHeader_at (data e)))
                  (of_nat (length (data e) - 2048))]))"
  by (simp add: HasValidPSXHeader_def HasValidPSXHeader_console_def sizeof_PSXEXEHeader_def
      expected_id_bytes PSXEXEHeader_at_def Let_def)

lemma zeros_not_expected_id:
  "replicate 8 (0 :: u8) \<noteq> [0x50, 0x53, 0x2D, 0x58, 0x20, 0x45, 0x58, 0x45]"
  by (simp add: replicate_numeral)

theorem HasValidPSXHeader_cases_witness:
  "\<not> HasValidPSXHeader (object_of [] True) \<and>
   \<not> HasValidPSXHeader (object_of (replicate 2048 0) True) \<and>
   HasValidPSXHeader (object_of (psx_image [0x00, 0x00, 0x01, 0x80] [0, 0, 0, 0]) True) \<and>
   HasValidPSXHeader_console
       (object_of (psx_image [0x00, 0x00, 0x01, 0x80] [1, 0, 0, 0]) True) =
     (True, [IncorrectPSXFileSize 1 0])"
  using HasValidPSXHeader_cases [of "object_of [] True"]
    HasValidPSXHeader_cases [of "object_of (replicate 2048 0) True"]
    HasValidPSXHeader_cases
      [of "object_of (psx_image [0x00, 0x00, 0x01, 0x80] [0, 0, 0, 0]) True"]
    HasValidPSXHeader_cases
      [of "object_of (psx_image [0x00, 0x00, 0x01, 0x80] [1, 0, 0, 0]) True"]
  by (simp add: object_of_def ElfObject_new_def length_psx_image take8_psx_image
      PSXEXEHeader_at_psx_image le_u32_def zeros_not_expected_id)

text \<open>
  C5. On a console executable \<open>GetEntryPoint\<close> returns the header's \<open>initial_pc\<close> when
  \<open>HasValidPSXHeader\<close> holds and \<open>0xFFFFFFFF\<close> when it does not. On an ELF image, whose
  buffer holds the 52 bytes of the header, it returns the header's \<open>e_entry\<close> and
  tests nothing.
\<close>

theorem GetEntryPoint_cases:
  "(isPSXElf e \<and> HasValidPSXHeader e \<longrightarrow>
      GetEntryPoint e = Inr (initial_pc (PSXEXEHeader_at (data e)))) \<and>
   (isPSXElf e \<and> \<not> HasValidPSXHeader e \<longrightarrow> GetEntryPoint e = Inr 0xFFFFFFFF) \<and>
   (\<not> isPSXElf e \<and> 52 \<le> length (data e) \<longrightarrow>
      GetEntryPoint e = Inr (e_entry (ELF_HEADER_at (data e))))"
  by (simp add: GetEntryPoint_def GetHeader_def bind_res_def sizeof_ELF_HEADER_def)

lemma HasValidPSXHeader_samples:
  "HasValidPSXHeader (object_of (psx_image [0x00, 0x00, 0x01, 0x80] [0, 0, 0, 0]) True)"
  "\<not> HasValidPSXHeader
       (object_of ((psx_image [0x00, 0x00, 0x01, 0x80] [0, 0, 0, 0])[3 := 0]) True)"
  by (simp_all add: HasValidPSXHeader_def HasValidPSXHeader_console_def
      sizeof_PSXEXEHeader_def expected_id_bytes PSXEXEHeader_at_def Let_def object_of_def
      ElfObject_new_def length_psx_image take8_psx_image)
    (simp add: psx_image_def)

theorem GetEntryPoint_cases_witness:
  "GetEntryPoint (object_of (psx_image [0x00, 0x00, 0x01, 0x80] [0, 0, 0, 0]) True) =
     Inr 0x80010000 \<and>
   GetEntryPoint
       (object_of ((psx_image [0x00, 0x00, 0x01, 0x80] [0, 0, 0, 0])[3 := 0]) True) =
     Inr 0xFFFFFFFF \<and>
   GetEntryPoint (object_of text_image False) = Inr 0x100008"
  using GetEntryPoint_cases
      [of "object_of (psx_image [0x00, 0x00, 0x01, 0x80] [0, 0, 0, 0]) True"]
    GetEntryPoint_cases
      [of "object_of ((psx_image [0x00, 0x00, 0x01, 0x80] [0, 0, 0, 0])[3 := 0]) True"]
    GetEntryPoint_cases [of "object_of text_image False"]
    HasValidPSXHeader_samples
  by (simp add: object_of_def ElfObject_new_def PSXEXEHeader_at_psx_image le_u32_def
      text_image_eval)

lemma in_range_unat:
  "(\<lambda>p. p_vaddr p \<le> entry \<and> p_vaddr p + p_memsz p > entry) =
   (\<lambda>p. unat (p_vaddr p) \<le> unat entry \<and>
        unat entry < (unat (p_vaddr p) + unat (p_memsz p)) mod 2 ^ 32)"
  by (rule ext) (simp add: word_le_nat_alt word_less_nat_alt unat_word_ariths)

lemma GetTextRange_loop_find:
  assumes "\<forall>i \<in> set is. ph + 32 * i + 32 \<le> length d"
  shows "GetTextRange_loop d ph entry is =
     Inr (case find (\<lambda>p. p_vaddr p \<le> entry \<and> p_vaddr p + p_memsz p > entry)
                 (map (\<lambda>i. ELF_PHR_at d (ph + 32 * i)) is) of
            Some p \<Rightarrow> (p_vaddr p, p_memsz p)
          | None \<Rightarrow> (0, 0))"
  using assms
proof (induction "is")
  case Nil
  show ?case by simp
next
  case (Cons i "is")
  have rd: "read_ELF_PHR d (ph + sizeof_ELF_PHR * i) = Inr (ELF_PHR_at d (ph + 32 * i))"
    using Cons.prems by (simp add: read_ELF_PHR_def sizeof_ELF_PHR_def)
  show ?case
    using Cons by (simp add: rd bind_res_def Let_def)
qed

text \<open>
  C4, as amended. Take an ELF image with a present program-header view at \<open>ph\<close>, whose
  buffer holds the header and the \<open>e_phnum\<close> records of the table. \<open>GetTextRange\<close> returns
  \<open>(p_vaddr, p_memsz)\<close> of the first record in table order with \<open>p_vaddr \<le> entry\<close> and
  \<open>entry < (p_vaddr + p_memsz) mod 2^32\<close>, the end of the interval being the 32-bit sum;
  with no such record it returns \<open>(0, 0)\<close>. It also returns \<open>(0, 0)\<close> for a console
  executable and when the view is absent.
\<close>

theorem GetTextRange_first_match:
  "(\<not> isPSXElf e \<and> proghead e = Some ph \<and> 52 \<le> length (data e) \<and>
    ph + 32 * unat (e_phnum (ELF_HEADER_at (data e))) \<le> length (data e) \<longrightarrow>
      GetTextRange e =
        Inr (case find (\<lambda>p. unat (p_vaddr p) \<le> unat (e_entry (ELF_HEADER_at (data e))) \<and>
                          unat (e_entry (ELF_HEADER_at (data e))) <
                            (unat (p_vaddr p) + unat (p_memsz p)) mod 2 ^ 32)
                    (map (\<lambda>i. ELF_PHR_at (data e) (ph + 32 * i))
                       [0 ..< unat (e_phnum (ELF_HEADER_at (data e)))]) of
               Some p \<Rightarrow> (p_vaddr p, p_memsz p)
             | None \<Rightarrow> (0, 0))) \<and>
   (isPSXElf e \<or> proghead e = None \<longrightarrow> GetTextRange e = Inr (0, 0))"
proof (intro conjI impI)
  assume a: "\<not> isPSXElf e \<and> proghead e = Some ph \<and> 52 \<le> length (data e) \<and>
    ph + 32 * unat (e_phnum (ELF_HEADER_at (data e))) \<le> length (data e)"
  let ?n = "unat (e_phnum (ELF_HEADER_at (data e)))"
  have "\<forall>i \<in> set [0 ..< ?n]. ph + 32 * i + 32 \<le> length (data e)"
  proof
    fix i assume "i \<in> set [0 ..< ?n]"
    then have "32 * (i + 1) \<le> 32 * ?n" by simp
    with a show "ph + 32 * i + 32 \<le> length (data e)" by simp
  qed
  from GetTextRange_loop_find [OF this] a
  show "GetTextRange e =
        Inr (case find (\<lambda>p. unat (p_vaddr p) \<le> unat (e_entry (ELF_HEADER_at (data e))) \<and>
                          unat (e_entry (ELF_HEADER_at (data e))) <
                            (unat (p_vaddr p) + unat (p_memsz p)) mod 2 ^ 32)
                    (map (\<lambda>i. ELF_PHR_at (data e) (ph + 32 * i)) [0 ..< ?n]) of
               Some p \<Rightarrow> (p_vaddr p, p_memsz p)
             | None \<Rightarrow> (0, 0))"
    by (simp add: GetTextRange_def HasProgramHeaders_def GetHeader_def sizeof_ELF_HEADER_def
        bind_res_def in_range_unat)
next
  assume "isPSXElf e \<or> proghead e = None"
  then show "GetTextRange e = Inr (0, 0)"
    by (auto simp: GetTextRange_def HasProgramHeaders_def)
qed

lemma upt_0_3: "[0 ..< 3] = [0, 1, 2]"
  by (simp add: upt_conv_Cons)

theorem GetTextRange_first_match_witness:
  "GetTextRange ((object_of text_image False)\<lparr>proghead := Some 52\<rparr>) = Inr (0x100000, 0x10) \<and>
   GetTextRange console_object = Inr (0, 0) \<and>
   GetTextRange (object_of text_image False) = Inr (0, 0)"
  using GetTextRange_first_match [of "(object_of text_image False)\<lparr>proghead := Some 52\<rparr>" 52]
    GetTextRange_first_match [of console_object 0]
    GetTextRange_first_match [of "object_of text_image False" 0]
  by (simp add: object_of_def ElfObject_new_def console_object_def text_image_eval upt_0_3)

text \<open>
  The image \<open>wrap_image\<close> has one program header, with \<open>p_vaddr = 0xFFFFFFF0\<close> and
  \<open>p_memsz = 0x20\<close>, and the entry point \<open>0xFFFFFFF8\<close>, which lies at or above \<open>p_vaddr\<close>
  and below \<open>p_vaddr + p_memsz\<close>. The 32-bit sum is \<open>0x10\<close>, and the result is \<open>(0, 0)\<close>.
\<close>

theorem GetTextRange_wrap_counterexample:
  "OpenFile (one_file ''wrap.elf'' wrap_image) ''wrap.elf'' False ElfObject_new =
     Inr (wrap_object, []) \<and>
   e_entry (ELF_HEADER_at (data wrap_object)) = 0xFFFFFFF8 \<and>
   p_vaddr (ELF_PHR_at (data wrap_object) 52) = 0xFFFFFFF0 \<and>
   p_memsz (ELF_PHR_at (data wrap_object) 52) = 0x20 \<and>
   (0xFFFFFFF0 :: nat) \<le> 0xFFFFFFF8 \<and> (0xFFFFFFF8 :: nat) < 0xFFFFFFF0 + 0x20 \<and>
   GetTextRange wrap_object = Inr (0, 0)"
  by (simp add: OpenFile_one_file wrap_image_eval InitElfHeaders_def GetHeader_def
      sizeof_ELF_HEADER_def sizeof_ELF_PHR_def bind_res_def ElfObject_new_def
      wrap_object_def GetTextRange_def HasProgramHeaders_def read_ELF_PHR_def)

text \<open>
  The table of \<open>short_image\<close> is declared with two records and the buffer ends after
  the first, which does not contain the entry point. The image loads, with the view
  present, and the scan goes on to the record at offset 84, outside the buffer. This
  is the case the hypothesis on the table above leaves out.
\<close>

lemma GetTextRange_short_table:
  "OpenFile (one_file ''short.elf'' short_image) ''short.elf'' False ElfObject_new =
     Inr (short_object, []) \<and>
   GetTextRange short_object = Inl (OutOfBounds 84)"
  by (simp add: OpenFile_one_file short_image_eval InitElfHeaders_def GetHeader_def
      sizeof_ELF_HEADER_def sizeof_ELF_PHR_def bind_res_def ElfObject_new_def
      short_object_def GetTextRange_def HasProgramHeaders_def read_ELF_PHR_def
      upt_conv_Cons)

section \<open>Properties of the header dump\<close>

text \<open>
  C10. The claim is that the dump tests every index it takes from the section-header
  string-table index before reading through it, so that no read leaves the buffer.
  The source reads \<^verbatim>\<open>secthead[e_shstrndx].sh_offset\<close> with no test. \<open>dump_image\<close> is a
  92-byte ELF file with one section header at offset 52 and \<open>e_shstrndx = 5\<close>; it loads,
  and the dump then reads the record at offset \<open>52 + 5 * 40 = 252\<close>, which is outside
  the buffer, with the trace active or not.
\<close>

theorem LoadHeaders_reads_past_buffer:
  "OpenFile (one_file ''dump.elf'' dump_image) ''dump.elf'' False ElfObject_new =
     Inr (dump_object, []) \<and>
   length (data dump_object) = 92 \<and>
   LoadHeaders True dump_object = Inl (OutOfBounds 252) \<and>
   LoadHeaders False dump_object = Inl (OutOfBounds 252)"
  by (simp add: OpenFile_one_file dump_image_eval InitElfHeaders_def GetHeader_def
      sizeof_ELF_HEADER_def sizeof_ELF_PHR_def sizeof_ELF_SHR_def bind_res_def
      ElfObject_new_def dump_object_def LoadHeaders_def LoadProgramHeaders_def
      LoadSectionHeaders_def read_ELF_SHR_def)

section \<open>Properties of the checksum\<close>

lemma GetCRC_loop_fold:
  "src + 4 * n \<le> length d \<Longrightarrow>
   GetCRC_loop d n src CRC =
     Inr (fold (XOR) (map (\<lambda>k. u32_at d (src + 4 * k)) [0 ..< n]) CRC)"
proof (induction n arbitrary: src CRC)
  case 0
  show ?case by simp
next
  case (Suc n)
  have rd: "read_u32 d src = Inr (u32_at d src)"
    using Suc.prems by (simp add: read_u32_def u32_at_def)
  have "GetCRC_loop d (Suc n) src CRC = GetCRC_loop d n (src + 4) (CRC XOR u32_at d src)"
    by (simp add: rd bind_res_def)
  also have "\<dots> = Inr (fold (XOR) (map (\<lambda>k. u32_at d (src + 4 + 4 * k)) [0 ..< n])
                        (CRC XOR u32_at d src))"
    using Suc.prems by (intro Suc.IH) simp
  also have "\<dots> = Inr (fold (XOR) (map (\<lambda>k. u32_at d (src + 4 * k)) [0 ..< Suc n]) CRC)"
    by (simp only: map_upt_Suc) (simp add: xor.commute add.assoc)
  finally show ?case .
qed

lemma GetCRC_loop_numeral:
  "GetCRC_loop d (numeral k) src CRC =
     bind_res (read_u32 d src) (\<lambda>w. GetCRC_loop d (pred_numeral k) (src + 4) (CRC XOR w))"
  by (simp add: numeral_eq_Suc)

lemma take_words_le:
  "n \<le> length d div 4 \<Longrightarrow> take n (words_le d) = map (\<lambda>k. u32_at d (4 * k)) [0 ..< n]"
  by (simp add: words_le_def take_map)

lemma crc_count_le: "length d mod 2 ^ 32 div 4 \<le> length d div 4"
  by (intro div_le_mono) simp

lemma GetCRC_words:
  "GetCRC e = Inr (xor_all (take (length (data e) mod 2 ^ 32 div 4) (words_le (data e))))"
proof -
  let ?d = "data e"
  let ?n = "length ?d mod 2 ^ 32 div 4"
  have "4 * ?n \<le> length ?d"
    using crc_count_le [of ?d] by simp
  then have "GetCRC_loop ?d ?n 0 0 =
               Inr (fold (XOR) (map (\<lambda>k. u32_at ?d (0 + 4 * k)) [0 ..< ?n]) 0)"
    by (intro GetCRC_loop_fold) simp
  then show ?thesis
    using crc_count_le [of ?d] by (simp add: GetCRC_def xor_all_def take_words_le)
qed

text \<open>
  C7, as amended. \<open>GetCRC\<close> is the exclusive-or of the first
  \<open>floor((length mod 2^32) / 4)\<close> little-endian words of the buffer, the length being
  narrowed to 32 bits before the division. For a buffer shorter than \<open>2^32\<close> bytes these
  are all its \<open>floor(length / 4)\<close> whole words, trailing bytes left out; a buffer shorter
  than 4 bytes gives 0. No read of the loop leaves the buffer.
\<close>

theorem GetCRC_xor_words:
  "GetCRC e = Inr (xor_all (take (length (data e) mod 2 ^ 32 div 4) (words_le (data e)))) \<and>
   (length (data e) < 2 ^ 32 \<longrightarrow> GetCRC e = Inr (xor_all (words_le (data e)))) \<and>
   (length (data e) < 4 \<longrightarrow> GetCRC e = Inr 0)"
proof (intro conjI impI)
  show "GetCRC e = Inr (xor_all (take (length (data e) mod 2 ^ 32 div 4) (words_le (data e))))"
    by (rule GetCRC_words)
next
  assume "length (data e) < 2 ^ 32"
  then have "length (data e) mod 2 ^ 32 div 4 = length (words_le (data e))"
    by (simp add: words_le_def)
  then show "GetCRC e = Inr (xor_all (words_le (data e)))"
    by (simp add: GetCRC_words)
next
  assume "length (data e) < 4"
  then show "GetCRC e = Inr 0"
    by (simp add: GetCRC_words words_le_def xor_all_def)
qed

lemma upt_0_2: "[0 ..< 2] = [0, 1]"
  by (simp add: upt_conv_Cons)

theorem GetCRC_xor_words_witness:
  "length [1, 0, 0, 0, 2, 0, 0, 0, 9, 9, 9 :: u8] < 2 ^ 32 \<and>
   GetCRC (object_of [1, 0, 0, 0, 2, 0, 0, 0, 9, 9, 9] False) = Inr 3 \<and>
   length [7, 7, 7 :: u8] < 4 \<and>
   GetCRC (object_of [7, 7, 7] True) = Inr 0"
  using GetCRC_xor_words [of "object_of [1, 0, 0, 0, 2, 0, 0, 0, 9, 9, 9] False"]
    GetCRC_xor_words [of "object_of [7, 7, 7] True"]
  by (simp add: object_of_def ElfObject_new_def words_le_def xor_all_def upt_0_2 u32_at_def
      le_u32_def)

lemma le_u32_zero: "le_u32 0 0 0 0 = 0"
  by (simp add: le_u32_def)

lemma words_le_zeros: "words_le (replicate (4 * m) 0 @ t) = replicate m 0 @ words_le t"
proof (rule nth_equalityI)
  show "length (words_le (replicate (4 * m) 0 @ t)) = length (replicate m 0 @ words_le t)"
    by (simp add: words_le_def)
next
  fix k assume "k < length (words_le (replicate (4 * m) 0 @ t))"
  then have k: "k < m + length t div 4"
    by (simp add: words_le_def)
  show "words_le (replicate (4 * m) 0 @ t) ! k = (replicate m 0 @ words_le t) ! k"
  proof (cases "k < m")
    case True
    then show ?thesis
      using k by (simp add: words_le_def u32_at_def nth_append le_u32_zero)
  next
    case False
    then have "\<And>j. 4 * k + j - 4 * m = 4 * (k - m) + j" "\<And>j. \<not> 4 * k + j < 4 * m"
        "4 * k - 4 * m = 4 * (k - m)" "k - m < length t div 4"
        "Suc (4 * k) - 4 * m = Suc (4 * (k - m))"
        "Suc (Suc (4 * k)) - 4 * m = Suc (Suc (4 * (k - m)))"
      using k by simp_all
    then show ?thesis
      using k False by (simp add: words_le_def u32_at_def nth_append)
  qed
qed

lemma xor_all_zeros: "xor_all (replicate m 0 @ ws) = xor_all ws"
  by (induction m) (simp_all add: xor_all_def)

text \<open>
  \<open>big_image\<close> is \<open>2^32\<close> zero bytes followed by the word 1: a buffer of \<open>2^32 + 4\<close> bytes,
  which the file load accepts for a console executable. Its \<open>floor(length / 4)\<close> words
  have the exclusive-or 1; \<open>GetCRC\<close> narrows the length to 4, reads one word, and
  returns 0.
\<close>

theorem GetCRC_narrowing_counterexample:
  "length big_image = 2 ^ 32 + 4 \<and>
   xor_all (take (length big_image div 4) (words_le big_image)) = 1 \<and>
   GetCRC (object_of big_image True) = Inr 0"
proof (intro conjI)
  show "length big_image = 2 ^ 32 + 4"
    by (simp add: big_image_def)
  have "xor_all (words_le big_image) = 1"
    unfolding big_image_def words_le_zeros xor_all_zeros
    by (simp add: words_le_def xor_all_def u32_at_def le_u32_def)
  then show "xor_all (take (length big_image div 4) (words_le big_image)) = 1"
    by (simp add: words_le_def)
  have "GetCRC_loop big_image (Suc 0) 0 0 = Inr 0"
    by (simp add: big_image_def read_u32_def bind_res_def nth_append le_u32_zero)
  then show "GetCRC (object_of big_image True) = Inr 0"
    by (simp add: GetCRC_def object_of_def ElfObject_new_def big_image_def)
qed

lemma length_swap_words: "length (swap_words i j d) = length d"
  by (simp add: swap_words_def)

lemma u32_at_swap_words:
  assumes "i < length d div 4" "j < length d div 4" "k < length d div 4"
  shows "u32_at (swap_words i j d) (4 * k) =
           (if k = j then u32_at d (4 * i) else if k = i then u32_at d (4 * j)
            else u32_at d (4 * k))"
proof -
  have "4 * i + 3 < length d" "4 * j + 3 < length d" "4 * k + 3 < length d"
    using assms by simp_all
  then show ?thesis
    by (simp add: swap_words_def u32_at_def nth_list_update)
qed

lemma crc_words_swap:
  assumes "n \<le> length d div 4" "i < n" "j < n"
  shows "map (\<lambda>k. u32_at (swap_words i j d) (4 * k)) [0 ..< n] =
         (map (\<lambda>k. u32_at d (4 * k)) [0 ..< n])
           [j := map (\<lambda>k. u32_at d (4 * k)) [0 ..< n] ! i,
            i := map (\<lambda>k. u32_at d (4 * k)) [0 ..< n] ! j]"
proof (rule nth_equalityI)
  show "length (map (\<lambda>k. u32_at (swap_words i j d) (4 * k)) [0 ..< n]) =
        length ((map (\<lambda>k. u32_at d (4 * k)) [0 ..< n])
           [j := map (\<lambda>k. u32_at d (4 * k)) [0 ..< n] ! i,
            i := map (\<lambda>k. u32_at d (4 * k)) [0 ..< n] ! j])"
    by simp
next
  fix k assume "k < length (map (\<lambda>k. u32_at (swap_words i j d) (4 * k)) [0 ..< n])"
  then have "k < n" by simp
  with assms show "map (\<lambda>k. u32_at (swap_words i j d) (4 * k)) [0 ..< n] ! k =
        (map (\<lambda>k. u32_at d (4 * k)) [0 ..< n])
           [j := map (\<lambda>k. u32_at d (4 * k)) [0 ..< n] ! i,
            i := map (\<lambda>k. u32_at d (4 * k)) [0 ..< n] ! j] ! k"
    by (simp add: u32_at_swap_words nth_list_update)
qed

lemma xor_all_mset:
  assumes "mset xs = mset ys"
  shows "xor_all xs = xor_all ys"
proof -
  have "\<And>x y :: u32. (XOR) x \<circ> (XOR) y = (XOR) y \<circ> (XOR) x"
    by (rule ext) (simp add: xor.left_commute)
  with assms have "fold (XOR) xs = fold (XOR) ys"
    by (intro fold_multiset_equiv) simp_all
  then show ?thesis
    by (simp add: xor_all_def)
qed

text \<open>
  C8, as amended. \<open>GetCRC\<close> depends on the buffer only, and it does not depend on the
  order of the words: exchanging any two aligned words among those it reads leaves
  the result as it was, whether the two words are equal or not.
\<close>

theorem GetCRC_swap_invariant:
  "(data e = data e' \<longrightarrow> GetCRC e = GetCRC e') \<and>
   (i < length (data e) mod 2 ^ 32 div 4 \<and> j < length (data e) mod 2 ^ 32 div 4 \<longrightarrow>
      GetCRC (e\<lparr>data := swap_words i j (data e)\<rparr>) = GetCRC e)"
proof (intro conjI impI)
  assume "data e = data e'"
  then show "GetCRC e = GetCRC e'"
    by (simp add: GetCRC_def)
next
  let ?d = "data e"
  let ?n = "length ?d mod 2 ^ 32 div 4"
  let ?ws = "map (\<lambda>k. u32_at ?d (4 * k)) [0 ..< ?n]"
  assume ij: "i < ?n \<and> j < ?n"
  have le: "?n \<le> length ?d div 4"
    by (rule crc_count_le)
  have "take ?n (words_le (swap_words i j ?d)) = ?ws[j := ?ws ! i, i := ?ws ! j]"
    using le ij by (simp add: take_words_le length_swap_words crc_words_swap)
  moreover have "mset (?ws[j := ?ws ! i, i := ?ws ! j]) = mset ?ws"
    using ij by (intro mset_swap) simp_all
  moreover have "take ?n (words_le ?d) = ?ws"
    using le by (simp add: take_words_le)
  ultimately have
    "xor_all (take ?n (words_le (swap_words i j ?d))) = xor_all (take ?n (words_le ?d))"
    by (simp add: xor_all_mset)
  then show "GetCRC (e\<lparr>data := swap_words i j ?d\<rparr>) = GetCRC e"
    by (simp add: GetCRC_words length_swap_words)
qed

theorem GetCRC_swap_invariant_witness:
  "(0 :: nat) < length [1, 0, 0, 0, 2, 0, 0, 0 :: u8] mod 2 ^ 32 div 4 \<and>
   (1 :: nat) < length [1, 0, 0, 0, 2, 0, 0, 0 :: u8] mod 2 ^ 32 div 4 \<and>
   GetCRC (object_of [2, 0, 0, 0, 1, 0, 0, 0] False) =
   GetCRC (object_of [1, 0, 0, 0, 2, 0, 0, 0] False)"
  using GetCRC_swap_invariant [of "object_of [1, 0, 0, 0, 2, 0, 0, 0] False"
      "object_of [1, 0, 0, 0, 2, 0, 0, 0] False" 0 1]
  by (simp add: swap_words_def object_of_def ElfObject_new_def)

text \<open>
  The words 1 and 2 of the buffer below differ and do not cancel (their exclusive-or
  is 3). Exchanging them changes the buffer and leaves the checksum at 3.
\<close>

theorem GetCRC_swap_counterexample:
  "swap_words 0 1 [1, 0, 0, 0, 2, 0, 0, 0] = [2, 0, 0, 0, 1, 0, 0, 0] \<and>
   words_le [1, 0, 0, 0, 2, 0, 0, 0] = [1, 2] \<and>
   GetCRC (object_of [1, 0, 0, 0, 2, 0, 0, 0] False) = Inr 3 \<and>
   GetCRC (object_of [2, 0, 0, 0, 1, 0, 0, 0] False) = Inr 3"
  by (simp add: swap_words_def GetCRC_def object_of_def ElfObject_new_def GetCRC_loop_numeral
      read_u32_def bind_res_def le_u32_def words_le_def upt_0_2 u32_at_def)

end
